theory Spec2Isabelle
  imports Main
begin

section \<open>Data model (backend/models.py)\<close>

text \<open>
  The tables of the SQLAlchemy schema, one record per model class and one list per table,
  rows in insertion order. Columns that no operation of the inventory service reads
  (password hashes, prices, creation dates) are left out. A \<open>DateTime\<close> is an integer
  count of microseconds.
\<close>

type_synonym timestamp = int

record store =
  s_id :: int
  s_name :: string

record product =
  p_id :: int
  p_sku :: string
  p_name :: string
  p_reorder_level :: int

record inventory_item =
  i_id :: int
  i_store_id :: int
  i_product_id :: int
  i_quantity :: int
  i_last_updated :: "timestamp option"

record transaction =
  t_id :: int
  t_product_id :: int
  t_store_id :: int
  t_type :: string
  t_quantity :: int
  t_timestamp :: timestamp
  t_note :: string
  t_related_store_id :: "int option"
  t_user_id :: "int option"

record db =
  stores :: "store list"
  products :: "product list"
  inventory_items :: "inventory_item list"
  transactions :: "transaction list"

text \<open>
  Every \<open>raise ValueError(...)\<close> of the service is one constructor, carrying the values
  that the message formats.
\<close>

datatype error =
    DeltaNotNonZero
  | StoreNotFound int
  | ProductNotFound int
  | InsufficientStock int int
  | QuantityNotPositive
  | SameStore
  | SourceStoreNotFound int
  | DestinationStoreNotFound int
  | InsufficientStockAtSource int int

text \<open>The error taxonomy of the specification, by raise site.\<close>

datatype error_kind = NotFound | InvalidArgument | Insufficient

fun kind_of :: "error \<Rightarrow> error_kind" where
  "kind_of DeltaNotNonZero = InvalidArgument"
| "kind_of (StoreNotFound _) = NotFound"
| "kind_of (ProductNotFound _) = NotFound"
| "kind_of (InsufficientStock _ _) = Insufficient"
| "kind_of QuantityNotPositive = InvalidArgument"
| "kind_of SameStore = InvalidArgument"
| "kind_of (SourceStoreNotFound _) = NotFound"
| "kind_of (DestinationStoreNotFound _) = NotFound"
| "kind_of (InsufficientStockAtSource _ _) = Insufficient"

section \<open>Queries of the service (backend/services/inventory\_service.py)\<close>

definition get_store_by_id :: "db \<Rightarrow> int \<Rightarrow> store option" where
  "get_store_by_id d store_id = find (\<lambda>s. s_id s = store_id) (stores d)"

definition get_product_by_id :: "db \<Rightarrow> int \<Rightarrow> product option" where
  "get_product_by_id d product_id = find (\<lambda>p. p_id p = product_id) (products d)"

definition is_pair :: "int \<Rightarrow> int \<Rightarrow> inventory_item \<Rightarrow> bool" where
  "is_pair store_id product_id i \<longleftrightarrow> i_store_id i = store_id \<and> i_product_id i = product_id"

definition get_inventory_item :: "db \<Rightarrow> int \<Rightarrow> int \<Rightarrow> inventory_item option" where
  "get_inventory_item d store_id product_id =
     find (is_pair store_id product_id) (inventory_items d)"

text \<open>The primary key that the database gives the next inserted row.\<close>

definition next_id :: "int list \<Rightarrow> int" where
  "next_id ids = fold max ids 0 + 1"

text \<open>
  ``Get or create inventory item'': the row found by \<open>get_inventory_item\<close>, or a new row
  with quantity 0 added to the session.
\<close>

definition get_or_create :: "db \<Rightarrow> int \<Rightarrow> int \<Rightarrow> inventory_item \<times> db" where
  "get_or_create d store_id product_id =
     (case get_inventory_item d store_id product_id of
        Some inventory_item \<Rightarrow> (inventory_item, d)
      | None \<Rightarrow>
          (let inventory_item =
                 \<lparr>i_id = next_id (map i_id (inventory_items d)), i_store_id = store_id,
                  i_product_id = product_id, i_quantity = 0, i_last_updated = None\<rparr>
           in (inventory_item, d\<lparr>inventory_items := inventory_items d @ [inventory_item]\<rparr>)))"

text \<open>
  Assignment to the attributes of a loaded row: the first row that the query matches is
  replaced, as \<open>.first()\<close> returned that object.
\<close>

fun update_first :: "('a \<Rightarrow> bool) \<Rightarrow> 'a \<Rightarrow> 'a list \<Rightarrow> 'a list" where
  "update_first P y [] = []"
| "update_first P y (x # xs) = (if P x then y # xs else x # update_first P y xs)"

definition write_item :: "db \<Rightarrow> inventory_item \<Rightarrow> db" where
  "write_item d item =
     d\<lparr>inventory_items :=
         update_first (is_pair (i_store_id item) (i_product_id item)) item (inventory_items d)\<rparr>"

definition add_transaction :: "db \<Rightarrow> transaction \<Rightarrow> db" where
  "add_transaction d t = d\<lparr>transactions := transactions d @ [t]\<rparr>"

section \<open>update\_stock\<close>

record update_result =
  r_new_quantity :: int
  r_transaction_id :: int
  r_timestamp :: timestamp
  r_inventory_item :: inventory_item

text \<open>
  The body of the \<open>try\<close> block, on the session's view of the database. The two clock
  readings are the \<open>datetime.now\<close> of \<open>last_updated\<close> and the column default of
  \<open>Transaction.timestamp\<close>, evaluated when the row is inserted. The second component is
  the session at the point of the \<open>raise\<close> or of the \<open>commit\<close>.
\<close>

definition update_stock_try ::
  "db \<Rightarrow> int option \<Rightarrow> int \<Rightarrow> int \<Rightarrow> int \<Rightarrow> string \<Rightarrow> timestamp \<Rightarrow> timestamp
   \<Rightarrow> (error + update_result) \<times> db" where
  "update_stock_try d user_id store_id product_id delta reason now_updated now_inserted =
     (if delta = 0 then (Inl DeltaNotNonZero, d)
      else case get_store_by_id d store_id of
        None \<Rightarrow> (Inl (StoreNotFound store_id), d)
      | Some store \<Rightarrow>
         (case get_product_by_id d product_id of
            None \<Rightarrow> (Inl (ProductNotFound product_id), d)
          | Some product \<Rightarrow>
             (let (inventory_item, d1) = get_or_create d store_id product_id;
                  new_quantity = i_quantity inventory_item + delta
              in if new_quantity < 0
                 then (Inl (InsufficientStock (i_quantity inventory_item) \<bar>delta\<bar>), d1)
                 else
                   (let inventory_item' =
                          inventory_item\<lparr>i_quantity := new_quantity,
                                         i_last_updated := Some now_updated\<rparr>;
                        d2 = write_item d1 inventory_item';
                        transaction =
                          \<lparr>t_id = next_id (map t_id (transactions d2)),
                           t_product_id = product_id, t_store_id = store_id,
                           t_type = (if delta > 0 then ''IN'' else ''OUT''),
                           t_quantity = \<bar>delta\<bar>, t_timestamp = now_inserted,
                           t_note = reason, t_related_store_id = None,
                           t_user_id = user_id\<rparr>;
                        d3 = add_transaction d2 transaction
                    in (Inr \<lparr>r_new_quantity = new_quantity,
                             r_transaction_id = t_id transaction,
                             r_timestamp = t_timestamp transaction,
                             r_inventory_item = inventory_item'\<rparr>, d3)))))"

text \<open>
  \<open>except Exception: db.session.rollback(); raise\<close>: a failed call leaves the database as
  it was before the call; a successful one commits the session.
\<close>

definition update_stock ::
  "db \<Rightarrow> int option \<Rightarrow> int \<Rightarrow> int \<Rightarrow> int \<Rightarrow> string \<Rightarrow> timestamp \<Rightarrow> timestamp
   \<Rightarrow> (error + update_result) \<times> db" where
  "update_stock d user_id store_id product_id delta reason now_updated now_inserted =
     (case update_stock_try d user_id store_id product_id delta reason now_updated now_inserted of
        (Inl e, session) \<Rightarrow> (Inl e, d)
      | (Inr r, session) \<Rightarrow> (Inr r, session))"

text \<open>The quantity on hand of a pair: that of its row, 0 when there is none.\<close>

definition current_quantity :: "db \<Rightarrow> int \<Rightarrow> int \<Rightarrow> int" where
  "current_quantity d store_id product_id =
     (case get_inventory_item d store_id product_id of
        None \<Rightarrow> 0
      | Some inventory_item \<Rightarrow> i_quantity inventory_item)"

section \<open>transfer\_stock\<close>

record transfer_side =
  ts_new_quantity :: int
  ts_transaction_id :: int
  ts_inventory_item :: inventory_item

record transfer_result =
  tr_from_store :: transfer_side
  tr_to_store :: transfer_side
  tr_timestamp :: timestamp

text \<open>
  The body of the \<open>try\<close> block. Four clock readings: the two \<open>datetime.now\<close> of the
  \<open>last_updated\<close> assignments, then the column default of \<open>Transaction.timestamp\<close>, which
  is called once for each inserted row, first for \<open>out_transaction\<close> and then for
  \<open>in_transaction\<close>.
\<close>

definition transfer_stock_try ::
  "db \<Rightarrow> int option \<Rightarrow> int \<Rightarrow> int \<Rightarrow> int \<Rightarrow> int \<Rightarrow> string
   \<Rightarrow> timestamp \<Rightarrow> timestamp \<Rightarrow> timestamp \<Rightarrow> timestamp
   \<Rightarrow> (error + transfer_result) \<times> db" where
  "transfer_stock_try d user_id from_store_id to_store_id product_id quantity reason
       now_from now_to now_out now_in =
     (if quantity \<le> 0 then (Inl QuantityNotPositive, d)
      else if from_store_id = to_store_id then (Inl SameStore, d)
      else case get_store_by_id d from_store_id of
        None \<Rightarrow> (Inl (SourceStoreNotFound from_store_id), d)
      | Some from_store \<Rightarrow>
     (case get_store_by_id d to_store_id of
        None \<Rightarrow> (Inl (DestinationStoreNotFound to_store_id), d)
      | Some to_store \<Rightarrow>
     (case get_product_by_id d product_id of
        None \<Rightarrow> (Inl (ProductNotFound product_id), d)
      | Some product \<Rightarrow>
     (case get_inventory_item d from_store_id product_id of
        None \<Rightarrow> (Inl (InsufficientStockAtSource 0 quantity), d)
      | Some from_inventory \<Rightarrow>
          if i_quantity from_inventory < quantity
          then (Inl (InsufficientStockAtSource (i_quantity from_inventory) quantity), d)
          else
            (let (to_inventory, d1) = get_or_create d to_store_id product_id;
                 from_inventory' =
                   from_inventory\<lparr>i_quantity := i_quantity from_inventory - quantity,
                                  i_last_updated := Some now_from\<rparr>;
                 d2 = write_item d1 from_inventory';
                 to_inventory' =
                   to_inventory\<lparr>i_quantity := i_quantity to_inventory + quantity,
                                i_last_updated := Some now_to\<rparr>;
                 d3 = write_item d2 to_inventory';
                 out_transaction =
                   \<lparr>t_id = next_id (map t_id (transactions d3)),
                    t_product_id = product_id, t_store_id = from_store_id,
                    t_type = ''TRANSFER'', t_quantity = quantity, t_timestamp = now_out,
                    t_note = ''Transfer OUT to '' @ s_name to_store @ '': '' @ reason,
                    t_related_store_id = Some to_store_id, t_user_id = user_id\<rparr>;
                 d4 = add_transaction d3 out_transaction;
                 in_transaction =
                   \<lparr>t_id = next_id (map t_id (transactions d4)),
                    t_product_id = product_id, t_store_id = to_store_id,
                    t_type = ''TRANSFER'', t_quantity = quantity, t_timestamp = now_in,
                    t_note = ''Transfer IN from '' @ s_name from_store @ '': '' @ reason,
                    t_related_store_id = Some from_store_id, t_user_id = user_id\<rparr>;
                 d5 = add_transaction d4 in_transaction
             in (Inr \<lparr>tr_from_store =
                        \<lparr>ts_new_quantity = i_quantity from_inventory',
                         ts_transaction_id = t_id out_transaction,
                         ts_inventory_item = from_inventory'\<rparr>,
                      tr_to_store =
                        \<lparr>ts_new_quantity = i_quantity to_inventory',
                         ts_transaction_id = t_id in_transaction,
                         ts_inventory_item = to_inventory'\<rparr>,
                      tr_timestamp = t_timestamp out_transaction\<rparr>, d5))))))"

definition transfer_stock ::
  "db \<Rightarrow> int option \<Rightarrow> int \<Rightarrow> int \<Rightarrow> int \<Rightarrow> int \<Rightarrow> string
   \<Rightarrow> timestamp \<Rightarrow> timestamp \<Rightarrow> timestamp \<Rightarrow> timestamp
   \<Rightarrow> (error + transfer_result) \<times> db" where
  "transfer_stock d user_id from_store_id to_store_id product_id quantity reason
       now_from now_to now_out now_in =
     (case transfer_stock_try d user_id from_store_id to_store_id product_id quantity reason
             now_from now_to now_out now_in of
        (Inl e, session) \<Rightarrow> (Inl e, d)
      | (Inr r, session) \<Rightarrow> (Inr r, session))"

section \<open>Sequences of calls\<close>

datatype call =
    Update_stock "int option" int int int string timestamp timestamp
  | Transfer_stock "int option" int int int int string timestamp timestamp timestamp timestamp

fun after_call :: "db \<Rightarrow> call \<Rightarrow> db" where
  "after_call d (Update_stock u s p delta reason n1 n2) =
     snd (update_stock d u s p delta reason n1 n2)"
| "after_call d (Transfer_stock u f t p q reason n1 n2 n3 n4) =
     snd (transfer_stock d u f t p q reason n1 n2 n3 n4)"

fun after_calls :: "db \<Rightarrow> call list \<Rightarrow> db" where
  "after_calls d [] = d"
| "after_calls d (c # cs) = after_calls (after_call d c) cs"

section \<open>The ledger invariant of the specification\<close>

text \<open>
  The signed quantity that a transaction row stands for. Both rows of a transfer have type
  \<open>TRANSFER\<close> and a positive quantity; the row of the sending store is the one whose note
  starts with \<open>Transfer OUT to\<close>, the row of the receiving store the one whose note starts
  with \<open>Transfer IN from\<close>.
\<close>

definition signed_delta :: "transaction \<Rightarrow> int" where
  "signed_delta t =
     (if t_type t = ''IN'' then t_quantity t
      else if t_type t = ''OUT'' then - t_quantity t
      else if t_type t = ''TRANSFER'' then
        (if take 17 (t_note t) = ''Transfer IN from '' then t_quantity t
         else if take 16 (t_note t) = ''Transfer OUT to '' then - t_quantity t
         else 0)
      else 0)"

definition on_pair :: "int \<Rightarrow> int \<Rightarrow> transaction \<Rightarrow> bool" where
  "on_pair store_id product_id t \<longleftrightarrow> t_store_id t = store_id \<and> t_product_id t = product_id"

definition signed_sum :: "transaction list \<Rightarrow> int \<Rightarrow> int \<Rightarrow> int" where
  "signed_sum ts store_id product_id =
     sum_list (map signed_delta (filter (on_pair store_id product_id) ts))"

text \<open>The invariant as the specification words it: a statement about the rows that exist.\<close>

definition quantity_matches_log :: "db \<Rightarrow> bool" where
  "quantity_matches_log d \<longleftrightarrow>
     (\<forall>i \<in> set (inventory_items d).
        i_quantity i = signed_sum (transactions d) (i_store_id i) (i_product_id i))"

text \<open>The schema's \<open>unique_store_product\<close> constraint.\<close>

definition unique_store_product :: "db \<Rightarrow> bool" where
  "unique_store_product d \<longleftrightarrow>
     distinct (map (\<lambda>i. (i_store_id i, i_product_id i)) (inventory_items d))"

text \<open>No pair without a row has movements that do not cancel.\<close>

definition absent_pairs_balanced :: "db \<Rightarrow> bool" where
  "absent_pairs_balanced d \<longleftrightarrow>
     (\<forall>t \<in> set (transactions d).
        get_inventory_item d (t_store_id t) (t_product_id t) = None \<longrightarrow>
        signed_sum (transactions d) (t_store_id t) (t_product_id t) = 0)"

definition nonnegative_quantities :: "db \<Rightarrow> bool" where
  "nonnegative_quantities d \<longleftrightarrow> (\<forall>i \<in> set (inventory_items d). 0 \<le> i_quantity i)"

section \<open>Reporting\<close>

text \<open>
  \<open>if store_id: query = query.filter(... == store_id)\<close>: the filter applies when the
  argument is neither \<open>None\<close> nor 0.
\<close>

definition store_filter :: "int option \<Rightarrow> int \<Rightarrow> bool" where
  "store_filter store_id sid =
     (case store_id of None \<Rightarrow> True | Some s \<Rightarrow> if s \<noteq> 0 then sid = s else True)"

record low_stock_item =
  ls_id :: int
  ls_store_id :: int
  ls_product_id :: int
  ls_quantity :: int
  ls_last_updated :: "timestamp option"
  ls_store_name :: "string option"
  ls_product_name :: string
  ls_product_sku :: string
  ls_reorder_level :: int
  ls_shortage :: int

text \<open>The joined query: the rows of \<open>inventory_items\<close> with their product.\<close>

definition low_stock_rows :: "db \<Rightarrow> int option \<Rightarrow> (inventory_item \<times> product) list" where
  "low_stock_rows d store_id =
     [(i, p). i \<leftarrow> inventory_items d, p \<leftarrow> products d,
              p_id p = i_product_id i,
              i_quantity i \<le> p_reorder_level p,
              store_filter store_id (i_store_id i)]"

definition get_low_stock_items :: "db \<Rightarrow> int option \<Rightarrow> low_stock_item list" where
  "get_low_stock_items d store_id =
     map (\<lambda>(inventory_item, product).
            \<lparr>ls_id = i_id inventory_item,
             ls_store_id = i_store_id inventory_item,
             ls_product_id = i_product_id inventory_item,
             ls_quantity = i_quantity inventory_item,
             ls_last_updated = i_last_updated inventory_item,
             ls_store_name = map_option s_name (get_store_by_id d (i_store_id inventory_item)),
             ls_product_name = p_name product,
             ls_product_sku = p_sku product,
             ls_reorder_level = p_reorder_level product,
             ls_shortage = p_reorder_level product - i_quantity inventory_item\<rparr>)
         (low_stock_rows d store_id)"

text \<open>
  \<open>get_changes\<close> of backend/api.py, after the \<open>since\<close> parameter is parsed: the query with
  its filter, its descending order and its limit, then the current quantity of each row's
  pair.
\<close>

record change =
  ch_transaction :: transaction
  ch_current_quantity :: int

definition changes_query :: "db \<Rightarrow> timestamp \<Rightarrow> transaction list" where
  "changes_query d since_timestamp =
     take 100 (sort_key (\<lambda>t. - t_timestamp t)
                 (filter (\<lambda>t. t_timestamp t > since_timestamp) (transactions d)))"

definition get_changes :: "db \<Rightarrow> timestamp \<Rightarrow> change list" where
  "get_changes d since_timestamp =
     map (\<lambda>t. \<lparr>ch_transaction = t,
               ch_current_quantity = current_quantity d (t_store_id t) (t_product_id t)\<rparr>)
         (changes_query d since_timestamp)"

record totals =
  total_in :: int
  total_out :: int
  total_transfers_in :: int
  total_transfers_out :: int
  net_change :: int

record stock_report =
  rep_totals :: totals
  rep_transactions :: "transaction list"

text \<open>
  \<open>generate_stock_report\<close>: the filtered transactions and the totals over them. The
  inventory summary of the report is a separate query and is not part of the totals.
\<close>

definition report_transactions ::
  "db \<Rightarrow> timestamp option \<Rightarrow> timestamp option \<Rightarrow> int option \<Rightarrow> transaction list" where
  "report_transactions d start_date end_date store_id =
     filter (\<lambda>t. (case start_date of None \<Rightarrow> True | Some s \<Rightarrow> t_timestamp t \<ge> s)
               \<and> (case end_date of None \<Rightarrow> True | Some e \<Rightarrow> t_timestamp t \<le> e)
               \<and> store_filter store_id (t_store_id t))
       (transactions d)"

definition generate_stock_report ::
  "db \<Rightarrow> timestamp option \<Rightarrow> timestamp option \<Rightarrow> int option \<Rightarrow> stock_report" where
  "generate_stock_report d start_date end_date store_id =
     (let ts = report_transactions d start_date end_date store_id;
          t_in = sum_list (map t_quantity
                   (filter (\<lambda>t. t_type t \<in> set [''IN'', ''TRANSFER'']
                               \<and> Some (t_store_id t) = store_id) ts));
          t_out = sum_list (map t_quantity (filter (\<lambda>t. t_type t = ''OUT'') ts));
          tr_in = sum_list (map t_quantity
                    (filter (\<lambda>t. t_type t = ''TRANSFER'' \<and> Some (t_store_id t) = store_id) ts));
          tr_out = sum_list (map t_quantity
                     (filter (\<lambda>t. t_type t = ''TRANSFER''
                                 \<and> (case t_related_store_id t of
                                       None \<Rightarrow> False | Some r \<Rightarrow> r \<noteq> 0)) ts))
      in \<lparr>rep_totals = \<lparr>total_in = t_in, total_out = t_out, total_transfers_in = tr_in,
                        total_transfers_out = tr_out, net_change = t_in - t_out\<rparr>,
          rep_transactions = ts\<rparr>)"

text \<open>
  The \<open>total_in\<close> of the specification, for comparison with the code: the summed
  quantity of the \<open>IN\<close> rows and of the receiving rows of transfers, among the
  transactions of the period in the store scope of the report, which is every store when
  no store is given.
\<close>

definition spec_total_in ::
  "db \<Rightarrow> timestamp option \<Rightarrow> timestamp option \<Rightarrow> int option \<Rightarrow> int" where
  "spec_total_in d start_date end_date store_id =
     sum_list (map t_quantity
       (filter (\<lambda>t. t_type t = ''IN'' \<or>
                     (t_type t = ''TRANSFER'' \<and> take 17 (t_note t) = ''Transfer IN from ''))
          (filter (\<lambda>t. (case start_date of None \<Rightarrow> True | Some s \<Rightarrow> t_timestamp t \<ge> s)
                     \<and> (case end_date of None \<Rightarrow> True | Some e \<Rightarrow> t_timestamp t \<le> e)
                     \<and> (case store_id of None \<Rightarrow> True | Some s \<Rightarrow> t_store_id t = s))
             (transactions d))))"

section \<open>Example states\<close>

text \<open>Store 1 holds 12 units of product 1; store 2 holds none.\<close>

definition example_db :: db where
  "example_db =
     \<lparr>stores = [\<lparr>s_id = 1, s_name = ''Downtown''\<rparr>, \<lparr>s_id = 2, s_name = ''Mall''\<rparr>],
      products = [\<lparr>p_id = 1, p_sku = ''SKU-1'', p_name = ''Widget'', p_reorder_level = 10\<rparr>],
      inventory_items =
        [\<lparr>i_id = 1, i_store_id = 1, i_product_id = 1, i_quantity = 12, i_last_updated = None\<rparr>],
      transactions =
        [\<lparr>t_id = 1, t_product_id = 1, t_store_id = 1, t_type = ''IN'', t_quantity = 12,
          t_timestamp = 100, t_note = ''Initial stock'', t_related_store_id = None,
          t_user_id = None\<rparr>]\<rparr>"


text \<open>A sale, a transfer, and a sale that the stock of store 2 cannot cover.\<close>

definition example_calls :: "call list" where
  "example_calls =
     [Update_stock None 1 1 (- 5) ''sale'' 200 201,
      Transfer_stock None 1 2 1 5 ''restock'' 210 211 212 213,
      Update_stock None 2 1 (- 9) ''sale'' 220 221]"

text \<open>A log with a delivery to a pair that has no inventory row.\<close>

definition orphan_db :: db where
  "orphan_db =
     \<lparr>stores = [\<lparr>s_id = 1, s_name = ''Downtown''\<rparr>],
      products = [\<lparr>p_id = 1, p_sku = ''SKU-1'', p_name = ''Widget'', p_reorder_level = 10\<rparr>],
      inventory_items = [],
      transactions =
        [\<lparr>t_id = 1, t_product_id = 1, t_store_id = 1, t_type = ''IN'', t_quantity = 5,
          t_timestamp = 100, t_note = ''Delivery'', t_related_store_id = None,
          t_user_id = None\<rparr>]\<rparr>"

text \<open>Store 1 is below the reorder level of product 1, store 2 is not.\<close>

definition low_stock_db :: db where
  "low_stock_db =
     \<lparr>stores = [\<lparr>s_id = 1, s_name = ''Downtown''\<rparr>, \<lparr>s_id = 2, s_name = ''Mall''\<rparr>],
      products = [\<lparr>p_id = 1, p_sku = ''SKU-1'', p_name = ''Widget'', p_reorder_level = 10\<rparr>],
      inventory_items =
        [\<lparr>i_id = 1, i_store_id = 1, i_product_id = 1, i_quantity = 3, i_last_updated = None\<rparr>,
         \<lparr>i_id = 2, i_store_id = 2, i_product_id = 1, i_quantity = 50, i_last_updated = None\<rparr>],
      transactions = []\<rparr>"

text \<open>A log whose insertion order is not its time order.\<close>

definition feed_db :: db where
  "feed_db =
     \<lparr>stores = [\<lparr>s_id = 1, s_name = ''Downtown''\<rparr>],
      products = [\<lparr>p_id = 1, p_sku = ''SKU-1'', p_name = ''Widget'', p_reorder_level = 10\<rparr>],
      inventory_items =
        [\<lparr>i_id = 1, i_store_id = 1, i_product_id = 1, i_quantity = 9, i_last_updated = None\<rparr>],
      transactions =
        [\<lparr>t_id = 1, t_product_id = 1, t_store_id = 1, t_type = ''IN'', t_quantity = 12,
          t_timestamp = 100, t_note = ''Initial stock'', t_related_store_id = None,
          t_user_id = None\<rparr>,
         \<lparr>t_id = 2, t_product_id = 1, t_store_id = 1, t_type = ''OUT'', t_quantity = 5,
          t_timestamp = 300, t_note = ''sale'', t_related_store_id = None, t_user_id = None\<rparr>,
         \<lparr>t_id = 3, t_product_id = 1, t_store_id = 1, t_type = ''IN'', t_quantity = 2,
          t_timestamp = 200, t_note = ''return'', t_related_store_id = None,
          t_user_id = None\<rparr>]\<rparr>"

section \<open>Rows, sessions and their queries\<close>

lemma find_update_first_same:
  "P y \<Longrightarrow> find P (update_first P y xs) = (case find P xs of None \<Rightarrow> None | Some _ \<Rightarrow> Some y)"
  by (induction xs) auto

lemma find_update_first_other:
  "\<not> Q y \<Longrightarrow> (\<And>x. P x \<Longrightarrow> \<not> Q x) \<Longrightarrow> find Q (update_first P y xs) = find Q xs"
  by (induction xs) auto

lemma set_update_first: "set (update_first P y xs) \<subseteq> insert y (set xs)"
  by (induction xs) auto

lemma map_update_first:
  "(\<And>x. P x \<Longrightarrow> f x = f y) \<Longrightarrow> map f (update_first P y xs) = map f xs"
  by (induction xs) auto

lemma is_pair_key: "is_pair s p i \<longleftrightarrow> (i_store_id i, i_product_id i) = (s, p)"
  by (auto simp: is_pair_def)

lemma get_inventory_item_write_item:
  "get_inventory_item (write_item d it) s p =
     (if is_pair s p it
      then (case get_inventory_item d s p of None \<Rightarrow> None | Some _ \<Rightarrow> Some it)
      else get_inventory_item d s p)"
proof (cases "is_pair s p it")
  case True
  then have "is_pair (i_store_id it) (i_product_id it) = is_pair s p"
    by (auto simp: is_pair_def fun_eq_iff)
  with True show ?thesis
    by (simp add: get_inventory_item_def write_item_def find_update_first_same)
next
  case False
  then have "find (is_pair s p) (update_first (is_pair (i_store_id it) (i_product_id it)) it (inventory_items d))
      = find (is_pair s p) (inventory_items d)"
    by (intro find_update_first_other) (auto simp: is_pair_def)
  with False show ?thesis
    by (simp add: get_inventory_item_def write_item_def)
qed

lemma transactions_write_item [simp]: "transactions (write_item d it) = transactions d"
  by (simp add: write_item_def)

lemma stores_write_item [simp]: "stores (write_item d it) = stores d"
  by (simp add: write_item_def)

lemma products_write_item [simp]: "products (write_item d it) = products d"
  by (simp add: write_item_def)

lemma find_append: "find P (xs @ ys) = (case find P xs of None \<Rightarrow> find P ys | Some x \<Rightarrow> Some x)"
  by (induction xs) auto

lemma get_inventory_item_is_pair:
  "get_inventory_item d s p = Some it \<Longrightarrow> is_pair s p it \<and> it \<in> set (inventory_items d)"
  by (auto simp: get_inventory_item_def find_Some_iff)

lemma get_or_create_fst:
  "i_store_id (fst (get_or_create d s p)) = s"
  "i_product_id (fst (get_or_create d s p)) = p"
  "i_quantity (fst (get_or_create d s p)) = current_quantity d s p"
  by (auto simp: get_or_create_def current_quantity_def Let_def is_pair_def
      dest: get_inventory_item_is_pair split: option.splits)

lemma get_or_create_snd:
  "get_inventory_item (snd (get_or_create d s p)) s' p' =
     (if s' = s \<and> p' = p then Some (fst (get_or_create d s p)) else get_inventory_item d s' p')"
  "transactions (snd (get_or_create d s p)) = transactions d"
  "stores (snd (get_or_create d s p)) = stores d"
  "products (snd (get_or_create d s p)) = products d"
  by (auto simp: get_or_create_def Let_def get_inventory_item_def find_append is_pair_def
      split: option.splits)


lemma update_stock_cases:
  "(\<exists>e. update_stock d u s p delta reason n1 n2 = (Inl e, d)) \<or>
   (get_store_by_id d s \<noteq> None \<and> get_product_by_id d p \<noteq> None \<and> delta \<noteq> 0 \<and>
    0 \<le> current_quantity d s p + delta)"
  by (auto simp: update_stock_def update_stock_try_def Let_def case_prod_beta get_or_create_fst
      split: option.splits)

lemma update_stock_commit:
  assumes "get_store_by_id d s \<noteq> None" "get_product_by_id d p \<noteq> None" "delta \<noteq> 0"
    "0 \<le> current_quantity d s p + delta"
  shows "update_stock d u s p delta reason n1 n2 =
    (Inr \<lparr>r_new_quantity = current_quantity d s p + delta,
          r_transaction_id = next_id (map t_id (transactions d)),
          r_timestamp = n2,
          r_inventory_item = (fst (get_or_create d s p))
             \<lparr>i_quantity := current_quantity d s p + delta, i_last_updated := Some n1\<rparr>\<rparr>,
     add_transaction
       (write_item (snd (get_or_create d s p))
          ((fst (get_or_create d s p))
             \<lparr>i_quantity := current_quantity d s p + delta, i_last_updated := Some n1\<rparr>))
       \<lparr>t_id = next_id (map t_id (transactions d)), t_product_id = p, t_store_id = s,
        t_type = (if delta > 0 then ''IN'' else ''OUT''), t_quantity = \<bar>delta\<bar>,
        t_timestamp = n2, t_note = reason, t_related_store_id = None, t_user_id = u\<rparr>)"
  using assms
  by (auto simp: update_stock_def update_stock_try_def Let_def case_prod_beta get_or_create_fst
      get_or_create_snd)

lemma current_quantity_add_transaction [simp]:
  "current_quantity (add_transaction d t) s p = current_quantity d s p"
  by (simp add: current_quantity_def add_transaction_def get_inventory_item_def)

lemma update_stock_quantity:
  assumes "get_store_by_id d s \<noteq> None" "get_product_by_id d p \<noteq> None" "delta \<noteq> 0"
    "0 \<le> current_quantity d s p + delta"
  shows "current_quantity (snd (update_stock d u s p delta reason n1 n2)) s' p' =
     (if s' = s \<and> p' = p then current_quantity d s p + delta else current_quantity d s' p')"
  unfolding update_stock_commit [OF assms] snd_conv current_quantity_add_transaction
  by (simp add: current_quantity_def get_inventory_item_write_item get_or_create_snd
      get_or_create_fst is_pair_def)


lemma get_inventory_item_add_transaction [simp]:
  "get_inventory_item (add_transaction d t) s p = get_inventory_item d s p"
  by (simp add: add_transaction_def get_inventory_item_def)

lemma transactions_add_transaction [simp]:
  "transactions (add_transaction d t) = transactions d @ [t]"
  by (simp add: add_transaction_def)


section \<open>update\_stock: the successful call\<close>

text \<open>
  C3. On an existing store and product, with a non-zero delta that keeps the quantity of
  the pair (0 when it has no row yet) non-negative, \<open>update_stock\<close> succeeds and returns
  the current quantity plus delta; afterwards the pair has a row with that quantity, and
  the log is the old log followed by exactly one transaction on the pair, of type \<open>IN\<close>
  for a positive delta and \<open>OUT\<close> for a negative one, whose quantity is the absolute
  value of delta.
\<close>

theorem update_stock_applies_delta:
  assumes "get_store_by_id d s \<noteq> None" and "get_product_by_id d p \<noteq> None"
    and "delta \<noteq> 0" and "0 \<le> current_quantity d s p + delta"
  shows "\<exists>r i t.
     update_stock d u s p delta reason n1 n2 = (Inr r, snd (update_stock d u s p delta reason n1 n2))
   \<and> r_new_quantity r = current_quantity d s p + delta
   \<and> get_inventory_item (snd (update_stock d u s p delta reason n1 n2)) s p = Some i
   \<and> i_quantity i = current_quantity d s p + delta
   \<and> transactions (snd (update_stock d u s p delta reason n1 n2)) = transactions d @ [t]
   \<and> t_store_id t = s \<and> t_product_id t = p
   \<and> t_type t = (if 0 < delta then ''IN'' else ''OUT'') \<and> t_quantity t = \<bar>delta\<bar>"
  unfolding update_stock_commit [OF assms]
  by (simp add: get_inventory_item_write_item get_or_create_snd get_or_create_fst is_pair_def)

theorem update_stock_applies_delta_witness:
  "\<exists>r i t.
     update_stock example_db None 1 1 (- 5) ''sale'' 200 201
       = (Inr r, snd (update_stock example_db None 1 1 (- 5) ''sale'' 200 201))
   \<and> r_new_quantity r = 7
   \<and> get_inventory_item (snd (update_stock example_db None 1 1 (- 5) ''sale'' 200 201)) 1 1 = Some i
   \<and> i_quantity i = 7
   \<and> transactions (snd (update_stock example_db None 1 1 (- 5) ''sale'' 200 201))
       = transactions example_db @ [t]
   \<and> t_store_id t = 1 \<and> t_product_id t = 1 \<and> t_type t = ''OUT'' \<and> t_quantity t = 5"
proof -
  have "get_store_by_id example_db 1 \<noteq> None" "get_product_by_id example_db 1 \<noteq> None"
    "(- 5 :: int) \<noteq> 0" "0 \<le> current_quantity example_db 1 1 + (- 5)"
    "current_quantity example_db 1 1 = 12"
    by (simp_all add: example_db_def get_store_by_id_def get_product_by_id_def
        current_quantity_def get_inventory_item_def is_pair_def)
  from update_stock_applies_delta [OF this(1-4), of None "''sale''" 200 201] this(5)
  show ?thesis by simp
qed

section \<open>Failed calls\<close>

lemma update_stock_failure_unchanged:
  "fst (update_stock d u s p delta reason n1 n2) = Inl e \<Longrightarrow>
   snd (update_stock d u s p delta reason n1 n2) = d"
  by (auto simp: update_stock_def split: prod.splits sum.splits)

lemma transfer_stock_failure_unchanged:
  "fst (transfer_stock d u f t p q reason n1 n2 n3 n4) = Inl e \<Longrightarrow>
   snd (transfer_stock d u f t p q reason n1 n2 n3 n4) = d"
  by (auto simp: transfer_stock_def split: prod.splits sum.splits)

lemmas example_simps = example_db_def get_store_by_id_def get_product_by_id_def
  current_quantity_def get_inventory_item_def is_pair_def

text \<open>
  The existence checks come before any row is read: on a store or a product that does
  not exist the call fails with the not-found error, whatever the delta, and changes
  nothing.
\<close>

lemma update_stock_store_not_found:
  "delta \<noteq> 0 \<Longrightarrow> get_store_by_id d s = None \<Longrightarrow>
   update_stock d u s p delta reason n1 n2 = (Inl (StoreNotFound s), d)"
  by (simp add: update_stock_def update_stock_try_def)

lemma update_stock_product_not_found:
  "delta \<noteq> 0 \<Longrightarrow> get_store_by_id d s \<noteq> None \<Longrightarrow> get_product_by_id d p = None \<Longrightarrow>
   update_stock d u s p delta reason n1 n2 = (Inl (ProductNotFound p), d)"
  by (auto simp: update_stock_def update_stock_try_def)

text \<open>
  C4. In every state, a call of \<open>update_stock\<close> on an existing store and product whose
  delta would make the quantity of the pair negative (the quantity, 0 when the pair has no
  row, is not negative and its sum with delta is) fails with the insufficient-stock error
  that carries the current quantity and the requested amount, and the database (every row
  of every table, so the inventory quantities and the transaction log) is the one before
  the call.
\<close>

theorem update_stock_insufficient_unchanged:
  assumes "get_store_by_id d s \<noteq> None" and "get_product_by_id d p \<noteq> None"
    and "0 \<le> current_quantity d s p" and "current_quantity d s p + delta < 0"
  shows "update_stock d u s p delta reason n1 n2 =
           (Inl (InsufficientStock (current_quantity d s p) \<bar>delta\<bar>), d)
       \<and> kind_of (InsufficientStock (current_quantity d s p) \<bar>delta\<bar>) = Insufficient"
proof -
  from assms(3,4) have "delta \<noteq> 0"
    by auto
  with assms(1,2,4) show ?thesis
    by (auto simp: update_stock_def update_stock_try_def Let_def case_prod_beta
        get_or_create_fst)
qed

theorem update_stock_insufficient_unchanged_witness:
  "update_stock example_db None 1 1 (- 13) ''sale'' 200 201 =
     (Inl (InsufficientStock 12 13), example_db)
 \<and> update_stock example_db None 2 1 (- 1) ''sale'' 200 201 =
     (Inl (InsufficientStock 0 1), example_db)"
proof -
  have a: "get_store_by_id example_db 1 \<noteq> None" "get_product_by_id example_db 1 \<noteq> None"
    "0 \<le> current_quantity example_db 1 1" "current_quantity example_db 1 1 + (- 13) < 0"
    by (simp_all add: example_simps)
  have b: "get_store_by_id example_db 2 \<noteq> None" "get_product_by_id example_db 1 \<noteq> None"
    "0 \<le> current_quantity example_db 2 1" "current_quantity example_db 2 1 + (- 1) < 0"
    by (simp_all add: example_simps)
  have c: "current_quantity example_db 1 1 = 12" "current_quantity example_db 2 1 = 0"
    by (simp_all add: example_simps)
  from update_stock_insufficient_unchanged [OF a, of None "''sale''" 200 201]
    update_stock_insufficient_unchanged [OF b, of None "''sale''" 200 201] c
  show ?thesis by simp
qed

text \<open>
  C6. In every state, \<open>transfer_stock\<close> with a quantity that is not positive, or with the
  same store as source and destination, fails with an invalid-argument error (the quantity
  error when both apply, as that check is first) and leaves the database as it was.
\<close>

theorem transfer_stock_invalid_argument:
  assumes "q \<le> 0 \<or> f = t"
  shows "transfer_stock d u f t p q reason n1 n2 n3 n4 =
           (Inl (if q \<le> 0 then QuantityNotPositive else SameStore), d)
       \<and> kind_of (if q \<le> 0 then QuantityNotPositive else SameStore) = InvalidArgument"
  using assms by (auto simp: transfer_stock_def transfer_stock_try_def)

theorem transfer_stock_invalid_argument_witness:
  "transfer_stock example_db None 1 1 1 5 ''restock'' 200 201 202 203 = (Inl SameStore, example_db)
 \<and> transfer_stock example_db None 1 2 1 0 ''restock'' 200 201 202 203
      = (Inl QuantityNotPositive, example_db)"
proof -
  have a: "(5::int) \<le> 0 \<or> (1::int) = 1" and b: "(0::int) \<le> 0 \<or> (1::int) = 2"
    by simp_all
  from transfer_stock_invalid_argument [OF a, of example_db None 1 "''restock''" 200 201 202 203]
    transfer_stock_invalid_argument [OF b, of example_db None 1 "''restock''" 200 201 202 203]
  show ?thesis by simp
qed

text \<open>
  C10. When \<open>update_stock\<close> is called on a pair that has no row and the call fails, the
  pair has no row afterwards and the inventory table is unchanged: the row that the
  session created at quantity 0 is gone with the rollback.
\<close>

theorem update_stock_failure_discards_row:
  assumes "get_inventory_item d s p = None"
    and "fst (update_stock d u s p delta reason n1 n2) = Inl e"
  shows "get_inventory_item (snd (update_stock d u s p delta reason n1 n2)) s p = None
       \<and> inventory_items (snd (update_stock d u s p delta reason n1 n2)) = inventory_items d"
  using assms by (simp add: update_stock_failure_unchanged)

theorem update_stock_failure_discards_row_witness:
  "get_inventory_item example_db 2 1 = None
 \<and> fst (update_stock example_db None 2 1 (- 1) ''sale'' 200 201) = Inl (InsufficientStock 0 1)
 \<and> get_inventory_item (snd (update_stock_try example_db None 2 1 (- 1) ''sale'' 200 201)) 2 1 \<noteq> None
 \<and> get_inventory_item (snd (update_stock example_db None 2 1 (- 1) ''sale'' 200 201)) 2 1 = None"
proof -
  have a: "get_inventory_item example_db 2 1 = None"
    by (simp add: example_simps)
  have t: "update_stock_try example_db None 2 1 (- 1) ''sale'' 200 201 =
     (Inl (InsufficientStock 0 1), snd (get_or_create example_db 2 1))"
    by (simp add: update_stock_try_def example_simps get_or_create_def Let_def)
  have b: "fst (update_stock example_db None 2 1 (- 1) ''sale'' 200 201) = Inl (InsufficientStock 0 1)"
    by (simp add: update_stock_def t)
  have c: "get_inventory_item (snd (update_stock_try example_db None 2 1 (- 1) ''sale'' 200 201)) 2 1 \<noteq> None"
    by (simp add: t get_or_create_snd)
  from update_stock_failure_discards_row [OF a b] a b c show ?thesis by simp
qed

section \<open>transfer\_stock: the successful call\<close>

lemma current_quantity_Some:
  "get_inventory_item d s p = Some i \<Longrightarrow> current_quantity d s p = i_quantity i"
  by (simp add: current_quantity_def)

lemma transfer_stock_cases:
  "(\<exists>e. transfer_stock d u f t p q reason n1 n2 n3 n4 = (Inl e, d)) \<or>
   (f \<noteq> t \<and> 0 < q \<and> get_store_by_id d f \<noteq> None \<and> get_store_by_id d t \<noteq> None \<and>
    get_product_by_id d p \<noteq> None \<and> get_inventory_item d f p \<noteq> None \<and>
    q \<le> current_quantity d f p)"
  by (auto simp: transfer_stock_def transfer_stock_try_def Let_def case_prod_beta
      current_quantity_def split: option.splits)

lemma transfer_stock_commit:
  assumes "f \<noteq> t" "0 < q" "get_store_by_id d f = Some fs" "get_store_by_id d t = Some tst"
    "get_product_by_id d p \<noteq> None" "get_inventory_item d f p = Some fi" "q \<le> i_quantity fi"
  shows "\<exists>r. fst (transfer_stock d u f t p q reason n1 n2 n3 n4) = Inr r"
    and "snd (transfer_stock d u f t p q reason n1 n2 n3 n4) =
     add_transaction
       (add_transaction
          (write_item
             (write_item (snd (get_or_create d t p))
                (fi\<lparr>i_quantity := i_quantity fi - q, i_last_updated := Some n1\<rparr>))
             ((fst (get_or_create d t p))
                \<lparr>i_quantity := current_quantity d t p + q, i_last_updated := Some n2\<rparr>))
          \<lparr>t_id = next_id (map t_id (transactions d)), t_product_id = p, t_store_id = f,
           t_type = ''TRANSFER'', t_quantity = q, t_timestamp = n3,
           t_note = ''Transfer OUT to '' @ s_name tst @ '': '' @ reason,
           t_related_store_id = Some t, t_user_id = u\<rparr>)
       \<lparr>t_id = next_id (map t_id (transactions d) @ [next_id (map t_id (transactions d))]),
        t_product_id = p, t_store_id = t,
        t_type = ''TRANSFER'', t_quantity = q, t_timestamp = n4,
        t_note = ''Transfer IN from '' @ s_name fs @ '': '' @ reason,
        t_related_store_id = Some f, t_user_id = u\<rparr>"
  using assms
  by (auto simp: transfer_stock_def transfer_stock_try_def Let_def case_prod_beta
      get_or_create_fst get_or_create_snd)

lemma transfer_stock_source_row:
  assumes "0 < q" "q \<le> current_quantity d f p"
  obtains fi where "get_inventory_item d f p = Some fi" "q \<le> i_quantity fi"
    "i_store_id fi = f" "i_product_id fi = p"
proof -
  from assms obtain fi where fi: "get_inventory_item d f p = Some fi"
    by (cases "get_inventory_item d f p") (auto simp: current_quantity_def)
  moreover have "q \<le> i_quantity fi" using assms fi by (simp add: current_quantity_def)
  moreover have "i_store_id fi = f" "i_product_id fi = p"
    using get_inventory_item_is_pair [OF fi] by (simp_all add: is_pair_def)
  ultimately show thesis using that by blast
qed

lemma transfer_stock_quantity:
  assumes "f \<noteq> t" "0 < q" "get_store_by_id d f \<noteq> None" "get_store_by_id d t \<noteq> None"
    "get_product_by_id d p \<noteq> None" "q \<le> current_quantity d f p"
  shows "current_quantity (snd (transfer_stock d u f t p q reason n1 n2 n3 n4)) s' p' =
     (if s' = f \<and> p' = p then current_quantity d f p - q
      else if s' = t \<and> p' = p then current_quantity d t p + q
      else current_quantity d s' p')"
proof -
  from assms(2,6) obtain fi where fi: "get_inventory_item d f p = Some fi" "q \<le> i_quantity fi"
    "i_store_id fi = f" "i_product_id fi = p"
    by (rule transfer_stock_source_row)
  from assms obtain fs tst where st: "get_store_by_id d f = Some fs" "get_store_by_id d t = Some tst"
    by auto
  show ?thesis
    unfolding transfer_stock_commit(2) [OF assms(1,2) st assms(5) fi(1,2)]
    using assms(1) fi
    by (auto simp: current_quantity_def get_inventory_item_write_item get_or_create_snd
        get_or_create_fst is_pair_def)
qed

lemma transfer_stock_log:
  assumes "f \<noteq> t" "0 < q" "get_store_by_id d f = Some fs" "get_store_by_id d t = Some tst"
    "get_product_by_id d p \<noteq> None" "q \<le> current_quantity d f p"
  shows "transactions (snd (transfer_stock d u f t p q reason n1 n2 n3 n4)) =
     transactions d @
       [\<lparr>t_id = next_id (map t_id (transactions d)), t_product_id = p, t_store_id = f,
         t_type = ''TRANSFER'', t_quantity = q, t_timestamp = n3,
         t_note = ''Transfer OUT to '' @ s_name tst @ '': '' @ reason,
         t_related_store_id = Some t, t_user_id = u\<rparr>,
        \<lparr>t_id = next_id (map t_id (transactions d) @ [next_id (map t_id (transactions d))]),
         t_product_id = p, t_store_id = t,
         t_type = ''TRANSFER'', t_quantity = q, t_timestamp = n4,
         t_note = ''Transfer IN from '' @ s_name fs @ '': '' @ reason,
         t_related_store_id = Some f, t_user_id = u\<rparr>]"
proof -
  from assms(2,6) obtain fi where fi: "get_inventory_item d f p = Some fi" "q \<le> i_quantity fi"
    by (rule transfer_stock_source_row)
  show ?thesis
    unfolding transfer_stock_commit(2) [OF assms(1-5) fi]
    by (simp add: get_or_create_snd)
qed

text \<open>
  C5, as stated, on the example state with clock readings 202 and 203 at the two inserts:
  the call appends two \<open>TRANSFER\<close> rows whose timestamps are 202 and 203, not one shared
  timestamp.
\<close>

theorem transfer_stock_timestamps_counterexample:
  "map t_timestamp
     (drop 1 (transactions (snd (transfer_stock example_db None 1 2 1 5 ''restock'' 200 201 202 203))))
     = [202, 203]
 \<and> map t_type
     (drop 1 (transactions (snd (transfer_stock example_db None 1 2 1 5 ''restock'' 200 201 202 203))))
     = [''TRANSFER'', ''TRANSFER'']
 \<and> length (transactions example_db) = 1"
  by (simp add: transfer_stock_def transfer_stock_try_def example_simps get_or_create_def
      Let_def write_item_def add_transaction_def)

text \<open>
  C5, amended. For distinct existing stores, an existing product and a positive quantity
  that does not exceed the quantity of the source pair, \<open>transfer_stock\<close> succeeds; the
  quantity of the source pair goes down by the transferred amount, that of the destination
  pair (0 when it had no row, and it has a row afterwards) goes up by it, and the log is
  the old log followed by exactly two \<open>TRANSFER\<close> rows of that quantity: first the row of
  the source store, related to the destination, then the row of the destination store,
  related to the source. Each of the two rows carries the clock reading of its own insert.
\<close>

theorem transfer_stock_moves_quantity:
  assumes "f \<noteq> t" and "get_store_by_id d f \<noteq> None" and "get_store_by_id d t \<noteq> None"
    and "get_product_by_id d p \<noteq> None" and "0 < q" and "q \<le> current_quantity d f p"
  shows "\<exists>r t_out t_in.
     fst (transfer_stock d u f t p q reason n1 n2 n3 n4) = Inr r
   \<and> current_quantity (snd (transfer_stock d u f t p q reason n1 n2 n3 n4)) f p
       = current_quantity d f p - q
   \<and> current_quantity (snd (transfer_stock d u f t p q reason n1 n2 n3 n4)) t p
       = current_quantity d t p + q
   \<and> get_inventory_item (snd (transfer_stock d u f t p q reason n1 n2 n3 n4)) t p \<noteq> None
   \<and> transactions (snd (transfer_stock d u f t p q reason n1 n2 n3 n4))
       = transactions d @ [t_out, t_in]
   \<and> t_type t_out = ''TRANSFER'' \<and> t_store_id t_out = f \<and> t_related_store_id t_out = Some t
   \<and> t_product_id t_out = p \<and> t_quantity t_out = q \<and> t_timestamp t_out = n3
   \<and> t_type t_in = ''TRANSFER'' \<and> t_store_id t_in = t \<and> t_related_store_id t_in = Some f
   \<and> t_product_id t_in = p \<and> t_quantity t_in = q \<and> t_timestamp t_in = n4"
proof -
  from assms(5,6) obtain fi where fi: "get_inventory_item d f p = Some fi" "q \<le> i_quantity fi"
    "i_store_id fi = f" "i_product_id fi = p"
    by (rule transfer_stock_source_row)
  from assms obtain fs tst where st: "get_store_by_id d f = Some fs" "get_store_by_id d t = Some tst"
    by auto
  note ok = assms(1,5) st assms(4)
  have row: "get_inventory_item (snd (transfer_stock d u f t p q reason n1 n2 n3 n4)) t p \<noteq> None"
    unfolding transfer_stock_commit(2) [OF ok fi(1,2)]
    using assms(1) fi
    by (simp add: get_inventory_item_write_item get_or_create_snd get_or_create_fst is_pair_def)
  from transfer_stock_commit(1) [OF ok fi(1,2)]
  obtain r where "fst (transfer_stock d u f t p q reason n1 n2 n3 n4) = Inr r" by blast
  with row show ?thesis
    using assms(1)
    by (simp add: transfer_stock_log [OF ok assms(6)]
        transfer_stock_quantity [OF assms(1,5,2,3,4,6)])
qed

theorem transfer_stock_moves_quantity_witness:
  "\<exists>r t_out t_in.
     fst (transfer_stock example_db None 1 2 1 12 ''restock'' 200 201 202 202) = Inr r
   \<and> current_quantity (snd (transfer_stock example_db None 1 2 1 12 ''restock'' 200 201 202 202)) 1 1 = 0
   \<and> current_quantity (snd (transfer_stock example_db None 1 2 1 12 ''restock'' 200 201 202 202)) 2 1 = 12
   \<and> transactions (snd (transfer_stock example_db None 1 2 1 12 ''restock'' 200 201 202 202))
       = transactions example_db @ [t_out, t_in]
   \<and> t_store_id t_out = 1 \<and> t_related_store_id t_out = Some 2 \<and> t_quantity t_out = 12
   \<and> t_store_id t_in = 2 \<and> t_related_store_id t_in = Some 1 \<and> t_quantity t_in = 12"
proof -
  have h: "(1::int) \<noteq> 2" "get_store_by_id example_db 1 \<noteq> None" "get_store_by_id example_db 2 \<noteq> None"
    "get_product_by_id example_db 1 \<noteq> None" "(0::int) < 12" "12 \<le> current_quantity example_db 1 1"
    by (simp_all add: example_simps)
  have c: "current_quantity example_db 1 1 = 12" "current_quantity example_db 2 1 = 0"
    by (simp_all add: example_simps)
  from transfer_stock_moves_quantity [OF h, of None "''restock''" 200 201 202 202] c
  show ?thesis by auto
qed

section \<open>Quantities stay non-negative\<close>

lemma nonnegative_current_quantity:
  "nonnegative_quantities d \<Longrightarrow> 0 \<le> current_quantity d s p"
  by (auto simp: nonnegative_quantities_def current_quantity_def
      dest: get_inventory_item_is_pair split: option.splits)

lemma nonnegative_write_item:
  "nonnegative_quantities d \<Longrightarrow> 0 \<le> i_quantity it \<Longrightarrow> nonnegative_quantities (write_item d it)"
  using set_update_first [of "is_pair (i_store_id it) (i_product_id it)" it "inventory_items d"]
  by (auto simp: nonnegative_quantities_def write_item_def)

lemma nonnegative_get_or_create:
  "nonnegative_quantities d \<Longrightarrow> nonnegative_quantities (snd (get_or_create d s p))"
  by (auto simp: nonnegative_quantities_def get_or_create_def Let_def split: option.splits)

lemma nonnegative_add_transaction [simp]:
  "nonnegative_quantities (add_transaction d t) = nonnegative_quantities d"
  by (simp add: nonnegative_quantities_def add_transaction_def)

lemma nonnegative_update_stock:
  assumes "nonnegative_quantities d"
  shows "nonnegative_quantities (snd (update_stock d u s p delta reason n1 n2))"
proof -
  consider e where "update_stock d u s p delta reason n1 n2 = (Inl e, d)"
    | "get_store_by_id d s \<noteq> None" "get_product_by_id d p \<noteq> None" "delta \<noteq> 0"
      "0 \<le> current_quantity d s p + delta"
    using update_stock_cases [of d u s p delta reason n1 n2] by blast
  then show ?thesis
  proof cases
    case 1
    with assms show ?thesis by simp
  next
    case 2
    show ?thesis
      unfolding update_stock_commit [OF 2] snd_conv nonnegative_add_transaction
      by (intro nonnegative_write_item nonnegative_get_or_create assms) (simp add: 2)
  qed
qed

lemma nonnegative_transfer_stock:
  assumes "nonnegative_quantities d"
  shows "nonnegative_quantities (snd (transfer_stock d u f t p q reason n1 n2 n3 n4))"
proof -
  consider e where "transfer_stock d u f t p q reason n1 n2 n3 n4 = (Inl e, d)"
    | "f \<noteq> t" "0 < q" "get_store_by_id d f \<noteq> None" "get_store_by_id d t \<noteq> None"
      "get_product_by_id d p \<noteq> None" "q \<le> current_quantity d f p"
    using transfer_stock_cases [of d u f t p q reason n1 n2 n3 n4] by blast
  then show ?thesis
  proof cases
    case 1
    with assms show ?thesis by simp
  next
    case 2
    from 2(2,6) obtain fi where fi: "get_inventory_item d f p = Some fi" "q \<le> i_quantity fi"
      by (rule transfer_stock_source_row)
    from 2 obtain fs tst where st: "get_store_by_id d f = Some fs" "get_store_by_id d t = Some tst"
      by auto
    have "0 \<le> current_quantity d t p"
      by (rule nonnegative_current_quantity [OF assms])
    with 2(2) fi(2) show ?thesis
      unfolding transfer_stock_commit(2) [OF 2(1,2) st 2(5) fi] nonnegative_add_transaction
      by (intro nonnegative_write_item nonnegative_get_or_create assms) simp_all
  qed
qed

lemma example_run:
  "map i_quantity (inventory_items (after_calls example_db example_calls)) = [2, 5]"
  by (simp add: example_calls_def update_stock_def update_stock_try_def transfer_stock_def
      transfer_stock_try_def example_simps get_or_create_def Let_def write_item_def
      add_transaction_def)

text \<open>
  C2. From a state in which every inventory row has a non-negative quantity, every
  sequence of \<open>update_stock\<close> and \<open>transfer_stock\<close> calls, whichever of them succeed or
  fail, ends in a state in which every inventory row has a non-negative quantity.
\<close>

theorem quantities_never_negative:
  "nonnegative_quantities d \<Longrightarrow> nonnegative_quantities (after_calls d cs)"
proof (induction cs arbitrary: d)
  case Nil
  then show ?case by simp
next
  case (Cons c cs)
  have "nonnegative_quantities (after_call d c)"
    using Cons.prems by (cases c) (simp_all add: nonnegative_update_stock nonnegative_transfer_stock)
  then show ?case by (simp add: Cons.IH)
qed

theorem quantities_never_negative_witness:
  "nonnegative_quantities example_db \<and> nonnegative_quantities (after_calls example_db example_calls)"
proof -
  have "nonnegative_quantities example_db"
    by (simp add: nonnegative_quantities_def example_db_def)
  from this quantities_never_negative [OF this, of example_calls] show ?thesis by simp
qed

section \<open>The ledger invariant\<close>

lemma find_distinct_key:
  "distinct (map f xs) \<Longrightarrow> x \<in> set xs \<Longrightarrow> find (\<lambda>y. f y = f x) xs = Some x"
  by (induction xs) (auto simp: rev_image_eqI)

lemma unique_get_inventory_item:
  assumes "unique_store_product d" "i \<in> set (inventory_items d)"
  shows "get_inventory_item d (i_store_id i) (i_product_id i) = Some i"
proof -
  have "is_pair (i_store_id i) (i_product_id i)
      = (\<lambda>y. (i_store_id y, i_product_id y) = (i_store_id i, i_product_id i))"
    by (auto simp: is_pair_def fun_eq_iff)
  then show ?thesis
    using assms find_distinct_key [of "\<lambda>i. (i_store_id i, i_product_id i)" "inventory_items d" i]
    by (simp add: get_inventory_item_def unique_store_product_def)
qed

lemma signed_sum_no_row:
  "\<forall>t \<in> set ts. \<not> on_pair s p t \<Longrightarrow> signed_sum ts s p = 0"
  by (simp add: signed_sum_def)

lemma on_pair_iff: "on_pair s p t \<longleftrightarrow> t_store_id t = s \<and> t_product_id t = p"
  by (simp add: on_pair_def)

lemma ledger_consistent_iff:
  assumes "unique_store_product d"
  shows "quantity_matches_log d \<and> absent_pairs_balanced d \<longleftrightarrow>
         (\<forall>s p. current_quantity d s p = signed_sum (transactions d) s p)"
proof
  assume inv: "quantity_matches_log d \<and> absent_pairs_balanced d"
  show "\<forall>s p. current_quantity d s p = signed_sum (transactions d) s p"
  proof (intro allI)
    fix s p
    show "current_quantity d s p = signed_sum (transactions d) s p"
    proof (cases "get_inventory_item d s p")
      case (Some i)
      from get_inventory_item_is_pair [OF Some] inv show ?thesis
        by (auto simp: current_quantity_def Some quantity_matches_log_def is_pair_def)
    next
      case None
      show ?thesis
      proof (cases "\<exists>t \<in> set (transactions d). on_pair s p t")
        case True
        with inv None show ?thesis
          by (auto simp: absent_pairs_balanced_def current_quantity_def on_pair_def)
      next
        case False
        with None show ?thesis
          by (simp add: signed_sum_no_row current_quantity_def)
      qed
    qed
  qed
next
  assume c: "\<forall>s p. current_quantity d s p = signed_sum (transactions d) s p"
  have "quantity_matches_log d"
    unfolding quantity_matches_log_def
  proof
    fix i assume "i \<in> set (inventory_items d)"
    from unique_get_inventory_item [OF assms this] c [rule_format, of "i_store_id i" "i_product_id i"]
    show "i_quantity i = signed_sum (transactions d) (i_store_id i) (i_product_id i)"
      by (simp add: current_quantity_def)
  qed
  moreover have "absent_pairs_balanced d"
    unfolding absent_pairs_balanced_def
  proof (intro ballI impI)
    fix t :: transaction
    assume "get_inventory_item d (t_store_id t) (t_product_id t) = None"
    with c [rule_format, of "t_store_id t" "t_product_id t"]
    show "signed_sum (transactions d) (t_store_id t) (t_product_id t) = 0"
      by (simp add: current_quantity_def)
  qed
  ultimately show "quantity_matches_log d \<and> absent_pairs_balanced d" ..
qed

lemma unique_write_item:
  assumes "unique_store_product d"
  shows "unique_store_product (write_item d it)"
proof -
  have "map (\<lambda>i. (i_store_id i, i_product_id i))
          (update_first (is_pair (i_store_id it) (i_product_id it)) it (inventory_items d))
        = map (\<lambda>i. (i_store_id i, i_product_id i)) (inventory_items d)"
    by (rule map_update_first) (simp add: is_pair_def)
  with assms show ?thesis
    by (simp add: unique_store_product_def write_item_def)
qed

lemma unique_get_or_create:
  "unique_store_product d \<Longrightarrow> unique_store_product (snd (get_or_create d s p))"
  by (auto simp: unique_store_product_def get_or_create_def Let_def get_inventory_item_def
      find_None_iff is_pair_def split: option.splits)

lemma unique_add_transaction [simp]:
  "unique_store_product (add_transaction d t) = unique_store_product d"
  by (simp add: unique_store_product_def add_transaction_def)

lemma signed_sum_snoc:
  "signed_sum (ts @ [t]) s p = signed_sum ts s p + (if on_pair s p t then signed_delta t else 0)"
  by (simp add: signed_sum_def)


lemma signed_delta_update_row:
  "delta \<noteq> 0 \<Longrightarrow>
   signed_delta \<lparr>t_id = k, t_product_id = p, t_store_id = s,
      t_type = (if delta > 0 then ''IN'' else ''OUT''), t_quantity = \<bar>delta\<bar>,
      t_timestamp = n, t_note = reason, t_related_store_id = r, t_user_id = u\<rparr> = delta"
  by (simp add: signed_delta_def)

lemma signed_delta_out_row:
  "signed_delta \<lparr>t_id = k, t_product_id = p, t_store_id = s,
      t_type = ''TRANSFER'', t_quantity = q, t_timestamp = n,
      t_note = ''Transfer OUT to '' @ name @ '': '' @ reason,
      t_related_store_id = r, t_user_id = u\<rparr> = - q"
  by (simp add: signed_delta_def)

lemma signed_delta_in_row:
  "signed_delta \<lparr>t_id = k, t_product_id = p, t_store_id = s,
      t_type = ''TRANSFER'', t_quantity = q, t_timestamp = n,
      t_note = ''Transfer IN from '' @ name @ '': '' @ reason,
      t_related_store_id = r, t_user_id = u\<rparr> = q"
  by (simp add: signed_delta_def)

lemma unique_update_stock:
  assumes "unique_store_product d"
  shows "unique_store_product (snd (update_stock d u s p delta reason n1 n2))"
proof -
  consider e where "update_stock d u s p delta reason n1 n2 = (Inl e, d)"
    | "get_store_by_id d s \<noteq> None" "get_product_by_id d p \<noteq> None" "delta \<noteq> 0"
      "0 \<le> current_quantity d s p + delta"
    using update_stock_cases [of d u s p delta reason n1 n2] by blast
  then show ?thesis
  proof cases
    case 1
    with assms show ?thesis by simp
  next
    case 2
    show ?thesis
      unfolding update_stock_commit [OF 2] snd_conv unique_add_transaction
      by (intro unique_write_item unique_get_or_create assms)
  qed
qed

lemma unique_transfer_stock:
  assumes "unique_store_product d"
  shows "unique_store_product (snd (transfer_stock d u f t p q reason n1 n2 n3 n4))"
proof -
  consider e where "transfer_stock d u f t p q reason n1 n2 n3 n4 = (Inl e, d)"
    | "f \<noteq> t" "0 < q" "get_store_by_id d f \<noteq> None" "get_store_by_id d t \<noteq> None"
      "get_product_by_id d p \<noteq> None" "q \<le> current_quantity d f p"
    using transfer_stock_cases [of d u f t p q reason n1 n2 n3 n4] by blast
  then show ?thesis
  proof cases
    case 1
    with assms show ?thesis by simp
  next
    case 2
    from 2(2,6) obtain fi where fi: "get_inventory_item d f p = Some fi" "q \<le> i_quantity fi"
      by (rule transfer_stock_source_row)
    from 2 obtain fs tst where st: "get_store_by_id d f = Some fs" "get_store_by_id d t = Some tst"
      by auto
    show ?thesis
      unfolding transfer_stock_commit(2) [OF 2(1,2) st 2(5) fi] unique_add_transaction
      by (intro unique_write_item unique_get_or_create assms)
  qed
qed

lemma update_stock_log:
  assumes "get_store_by_id d s \<noteq> None" "get_product_by_id d p \<noteq> None" "delta \<noteq> 0"
    "0 \<le> current_quantity d s p + delta"
  shows "transactions (snd (update_stock d u s p delta reason n1 n2)) =
     transactions d @
       [\<lparr>t_id = next_id (map t_id (transactions d)), t_product_id = p, t_store_id = s,
         t_type = (if delta > 0 then ''IN'' else ''OUT''), t_quantity = \<bar>delta\<bar>,
         t_timestamp = n2, t_note = reason, t_related_store_id = None, t_user_id = u\<rparr>]"
  unfolding update_stock_commit [OF assms]
  by (simp add: get_or_create_snd)

lemma consistent_update_stock:
  assumes c: "\<forall>s p. current_quantity d s p = signed_sum (transactions d) s p"
  shows "current_quantity (snd (update_stock d u s p delta reason n1 n2)) s' p'
       = signed_sum (transactions (snd (update_stock d u s p delta reason n1 n2))) s' p'"
proof -
  consider e where "update_stock d u s p delta reason n1 n2 = (Inl e, d)"
    | "get_store_by_id d s \<noteq> None" "get_product_by_id d p \<noteq> None" "delta \<noteq> 0"
      "0 \<le> current_quantity d s p + delta"
    using update_stock_cases [of d u s p delta reason n1 n2] by blast
  then show ?thesis
  proof cases
    case 1
    with c show ?thesis by simp
  next
    case 2
    show ?thesis
      unfolding update_stock_quantity [OF 2] update_stock_log [OF 2] signed_sum_snoc
        signed_delta_update_row [OF 2(3)]
      using c by (auto simp: on_pair_def)
  qed
qed

lemma consistent_transfer_stock:
  assumes c: "\<forall>s p. current_quantity d s p = signed_sum (transactions d) s p"
  shows "current_quantity (snd (transfer_stock d u f t p q reason n1 n2 n3 n4)) s' p'
       = signed_sum (transactions (snd (transfer_stock d u f t p q reason n1 n2 n3 n4))) s' p'"
proof -
  consider e where "transfer_stock d u f t p q reason n1 n2 n3 n4 = (Inl e, d)"
    | "f \<noteq> t" "0 < q" "get_store_by_id d f \<noteq> None" "get_store_by_id d t \<noteq> None"
      "get_product_by_id d p \<noteq> None" "q \<le> current_quantity d f p"
    using transfer_stock_cases [of d u f t p q reason n1 n2 n3 n4] by blast
  then show ?thesis
  proof cases
    case 1
    with c show ?thesis by simp
  next
    case 2
    from 2 obtain fs tst where st: "get_store_by_id d f = Some fs" "get_store_by_id d t = Some tst"
      by auto
    have snoc2: "\<And>ts a b. signed_sum (ts @ [a, b]) s' p' =
        signed_sum ts s' p' + (if on_pair s' p' a then signed_delta a else 0)
          + (if on_pair s' p' b then signed_delta b else 0)"
      by (simp add: signed_sum_def)
    show ?thesis
      unfolding transfer_stock_quantity [OF 2] transfer_stock_log [OF 2(1,2) st 2(5,6)] snoc2
        signed_delta_out_row signed_delta_in_row
      using c 2(1) by (auto simp: on_pair_def)
  qed
qed

lemma ledger_after_call:
  assumes "unique_store_product d"
    and "\<forall>s p. current_quantity d s p = signed_sum (transactions d) s p"
  shows "unique_store_product (after_call d c)"
    and "\<forall>s p. current_quantity (after_call d c) s p = signed_sum (transactions (after_call d c)) s p"
  using assms
  by (cases c; simp add: unique_update_stock unique_transfer_stock
        consistent_update_stock consistent_transfer_stock)+

lemma ledger_after_calls:
  assumes "unique_store_product d"
    and "\<forall>s p. current_quantity d s p = signed_sum (transactions d) s p"
  shows "unique_store_product (after_calls d cs) \<and>
     (\<forall>s p. current_quantity (after_calls d cs) s p = signed_sum (transactions (after_calls d cs)) s p)"
  using assms
proof (induction cs arbitrary: d)
  case Nil
  then show ?case by simp
next
  case (Cons c cs)
  from Cons.IH [OF ledger_after_call [OF Cons.prems, of c]] show ?case by simp
qed

text \<open>
  C1, as stated, on a state whose log holds a delivery of 5 to a pair that has no
  inventory row: the invariant holds there, as it speaks of the rows that exist; after
  \<open>update_stock\<close> with delta 3 the new row holds 3 and the signed sum of its pair is 8.
\<close>

theorem ledger_invariant_counterexample:
  "quantity_matches_log orphan_db
 \<and> \<not> quantity_matches_log
       (after_calls orphan_db [Update_stock None 1 1 3 ''restock'' 200 201])"
  by (simp add: quantity_matches_log_def orphan_db_def update_stock_def update_stock_try_def
      get_store_by_id_def get_product_by_id_def get_inventory_item_def is_pair_def
      get_or_create_def Let_def write_item_def add_transaction_def signed_sum_def on_pair_def
      signed_delta_def)

text \<open>
  C1, amended. Start from a state that satisfies the invariant, in which moreover every
  pair that has transactions but no inventory row has signed sum 0, and which has at most
  one row for a pair (the schema's unique constraint). Then after every sequence of
  \<open>update_stock\<close> and \<open>transfer_stock\<close> calls, successful or failed, the quantity of
  every inventory row equals the signed sum of the transactions of its pair, where \<open>IN\<close>
  rows and the receiving rows of transfers add and \<open>OUT\<close> rows and the sending rows of
  transfers subtract; the two side conditions hold again.
\<close>

theorem ledger_invariant_preserved:
  assumes "unique_store_product d" and "absent_pairs_balanced d" and "quantity_matches_log d"
  shows "quantity_matches_log (after_calls d cs)
       \<and> absent_pairs_balanced (after_calls d cs)
       \<and> unique_store_product (after_calls d cs)"
proof -
  from assms have "\<forall>s p. current_quantity d s p = signed_sum (transactions d) s p"
    using ledger_consistent_iff [of d] by blast
  from ledger_after_calls [OF assms(1) this, of cs] show ?thesis
    using ledger_consistent_iff [of "after_calls d cs"] by blast
qed

theorem ledger_invariant_preserved_witness:
  "unique_store_product example_db \<and> absent_pairs_balanced example_db
 \<and> quantity_matches_log example_db
 \<and> quantity_matches_log (after_calls example_db example_calls)"
proof -
  have h: "unique_store_product example_db" "absent_pairs_balanced example_db"
    "quantity_matches_log example_db"
    by (simp_all add: unique_store_product_def absent_pairs_balanced_def quantity_matches_log_def
        example_db_def get_inventory_item_def is_pair_def signed_sum_def on_pair_def
        signed_delta_def)
  from ledger_invariant_preserved [OF h, of example_calls] h show ?thesis by simp
qed

section \<open>Reports\<close>

lemma set_low_stock_rows:
  "set (low_stock_rows d store_id) =
     {(i, p). i \<in> set (inventory_items d) \<and> p \<in> set (products d) \<and> p_id p = i_product_id i \<and>
              i_quantity i \<le> p_reorder_level p \<and> store_filter store_id (i_store_id i)}"
  by (auto simp: low_stock_rows_def split: if_splits)

lemma low_stock_shortage_nonnegative:
  "x \<in> set (get_low_stock_items d store_id) \<Longrightarrow>
     ls_quantity x \<le> ls_reorder_level x \<and> ls_shortage x = ls_reorder_level x - ls_quantity x \<and>
     0 \<le> ls_shortage x"
  by (auto simp: get_low_stock_items_def set_low_stock_rows)

lemma low_stock_filter_nonzero:
  "s \<noteq> 0 \<Longrightarrow> x \<in> set (get_low_stock_items d (Some s)) \<Longrightarrow> ls_store_id x = s"
  by (auto simp: get_low_stock_items_def set_low_stock_rows store_filter_def)

text \<open>
  C7. Every returned entry has a quantity at most the reorder level of its product and a
  shortage that is their non-negative difference, and a store argument other than 0
  restricts the result to that store (the three lemmas above). With the store argument 0
  the filter is not applied: on a state whose only low row is in store 1, the list for
  store 0 is the list of all stores and holds that row.
\<close>

theorem low_stock_filter_zero_ignored:
  "map ls_store_id (get_low_stock_items low_stock_db (Some 0)) = [1]
 \<and> map ls_store_id (get_low_stock_items low_stock_db None) = [1]
 \<and> map ls_store_id (get_low_stock_items low_stock_db (Some 2)) = []"
  by (simp add: get_low_stock_items_def low_stock_rows_def low_stock_db_def store_filter_def)

text \<open>
  C8. For every state and timestamp, the transactions that \<open>get_changes\<close> returns are
  transactions of the log with a timestamp strictly greater than the given one, in
  descending order of timestamp, and at most 100 of them.
\<close>

theorem changes_query_strictly_after:
  "(\<forall>t \<in> set (changes_query d since).
       since < t_timestamp t \<and> t \<in> set (transactions d))
 \<and> sorted_wrt (\<lambda>a b. t_timestamp b \<le> t_timestamp a) (changes_query d since)
 \<and> length (changes_query d since) \<le> 100
 \<and> map ch_transaction (get_changes d since) = changes_query d since"
proof -
  let ?m = "filter (\<lambda>t. t_timestamp t > since) (transactions d)"
  let ?s = "sort_key (\<lambda>t. - t_timestamp t) ?m"
  have "set (changes_query d since) \<subseteq> set ?s"
    unfolding changes_query_def by (rule set_take_subset)
  then have a: "\<forall>t \<in> set (changes_query d since). since < t_timestamp t \<and> t \<in> set (transactions d)"
    by auto
  have "sorted (map (\<lambda>t. - t_timestamp t) ?s)"
    by (rule sorted_sort_key)
  then have "sorted_wrt (\<lambda>a b. t_timestamp b \<le> t_timestamp a) ?s"
    by (simp add: sorted_map)
  then have b: "sorted_wrt (\<lambda>a b. t_timestamp b \<le> t_timestamp a) (changes_query d since)"
    unfolding changes_query_def by (rule sorted_wrt_take)
  have c: "length (changes_query d since) \<le> 100"
    by (simp add: changes_query_def)
  have e: "map ch_transaction (get_changes d since) = changes_query d since"
    by (simp add: get_changes_def comp_def)
  from a b c e show ?thesis by blast
qed

theorem changes_query_strictly_after_witness:
  "map t_timestamp (changes_query feed_db 100) = [300, 200]
 \<and> 100 < t_timestamp (hd (changes_query feed_db 100))
 \<and> hd (changes_query feed_db 100) \<in> set (transactions feed_db)
 \<and> length (changes_query feed_db 100) \<le> 100
 \<and> map ch_current_quantity (get_changes feed_db 100) = [9, 9]"
proof -
  have e: "map t_timestamp (changes_query feed_db 100) = [300, 200]"
    by (simp add: changes_query_def feed_db_def)
  then have "changes_query feed_db 100 \<noteq> []"
    by auto
  then have "hd (changes_query feed_db 100) \<in> set (changes_query feed_db 100)"
    by simp
  moreover have "map ch_current_quantity (get_changes feed_db 100) = [9, 9]"
    by (simp add: get_changes_def changes_query_def feed_db_def current_quantity_def
        get_inventory_item_def is_pair_def)
  ultimately show ?thesis
    using e changes_query_strictly_after [of feed_db 100] by blast
qed

lemma report_net_change:
  "net_change (rep_totals (generate_stock_report d a b s)) =
     total_in (rep_totals (generate_stock_report d a b s))
       - total_out (rep_totals (generate_stock_report d a b s))"
  by (simp add: generate_stock_report_def Let_def)

lemma report_total_in_unfiltered:
  "total_in (rep_totals (generate_stock_report d a b None)) = 0"
  by (simp add: generate_stock_report_def Let_def)

text \<open>
  C9. \<open>net_change\<close> is \<open>total_in\<close> minus \<open>total_out\<close>, and \<open>total_out\<close> sums the \<open>OUT\<close>
  rows in scope. \<open>total_in\<close> is not the total of the specification: a report over all
  stores has \<open>total_in\<close> 0 whatever the log holds (here deliveries of 12 and 2), and a
  report for store 1 counts the transfer of 5 that store 1 sent (17 instead of 12).
\<close>

theorem report_total_in_diverges:
  "total_in (rep_totals (generate_stock_report feed_db None None None)) = 0
 \<and> spec_total_in feed_db None None None = 14
 \<and> total_out (rep_totals (generate_stock_report feed_db None None None)) = 5
 \<and> net_change (rep_totals (generate_stock_report feed_db None None None)) = - 5
 \<and> total_in (rep_totals
       (generate_stock_report (after_calls example_db example_calls) None None (Some 1))) = 17
 \<and> spec_total_in (after_calls example_db example_calls) None None (Some 1) = 12"
proof -
  have "total_in (rep_totals (generate_stock_report feed_db None None None)) = 0
      \<and> spec_total_in feed_db None None None = 14
      \<and> total_out (rep_totals (generate_stock_report feed_db None None None)) = 5
      \<and> net_change (rep_totals (generate_stock_report feed_db None None None)) = - 5"
    by (simp add: generate_stock_report_def report_transactions_def spec_total_in_def Let_def
        feed_db_def store_filter_def)
  moreover have "total_in (rep_totals
       (generate_stock_report (after_calls example_db example_calls) None None (Some 1))) = 17
      \<and> spec_total_in (after_calls example_db example_calls) None None (Some 1) = 12"
    by (simp add: example_calls_def update_stock_def update_stock_try_def transfer_stock_def
        transfer_stock_try_def example_simps get_or_create_def Let_def write_item_def
        add_transaction_def generate_stock_report_def report_transactions_def spec_total_in_def
        store_filter_def)
  ultimately show ?thesis by blast
qed

end
